theory Spec2Isabelle
  imports Complex_Main
begin

section \<open>The job registry and the two job handlers of \<open>src/server/index.js\<close>\<close>

text \<open>
  The server keeps one process-wide \<^verbatim>\<open>const jobs = new Map()\<close> and two handlers work on it:
  \<^verbatim>\<open>POST /api/generate\<close> (lines 71-117) and \<^verbatim>\<open>GET /api/status/:jobId\<close> (lines 120-149).
  Both are embedded as functions that take the map and return the HTTP response, the map
  afterwards and the requests that were sent to Replicate.  The two things a handler reads
  from outside the program, the clock and the answer of Replicate, are parameters.

  Each handler is modelled as running from its first line to its response without another
  handler running in between, i.e. the interleaving at \<^verbatim>\<open>await\<close> is not modelled.
\<close>

subsection \<open>JavaScript values\<close>

text \<open>
  The values that travel through the handlers are JSON values plus \<^verbatim>\<open>undefined\<close> (an absent
  property).  A number is the real it denotes (JSON carries neither NaN nor an infinity).
\<close>

datatype jsval =
    JUndefined
  | JNull
  | JBool bool
  | JNum real
  | JStr string
  | JArr "jsval list"
  | JObj "(string \<times> jsval) list"

text \<open>JavaScript's \<^verbatim>\<open>ToBoolean\<close>, which decides \<^verbatim>\<open>!x\<close>, \<^verbatim>\<open>if (x)\<close> and \<^verbatim>\<open>x || y\<close>.\<close>

fun truthy :: "jsval \<Rightarrow> bool" where
  "truthy JUndefined = False"
| "truthy JNull = False"
| "truthy (JBool b) = b"
| "truthy (JNum n) = (n \<noteq> 0)"
| "truthy (JStr s) = (s \<noteq> [])"
| "truthy (JArr xs) = True"
| "truthy (JObj kvs) = True"

text \<open>\<^verbatim>\<open>x || y\<close>\<close>

definition js_or :: "jsval \<Rightarrow> jsval \<Rightarrow> jsval" where
  "js_or x y = (if truthy x then x else y)"

text \<open>Reading a property of a parsed JSON object: an absent key reads as \<^verbatim>\<open>undefined\<close>.\<close>

definition get_prop :: "(string \<rightharpoonup> jsval) \<Rightarrow> string \<Rightarrow> jsval" where
  "get_prop obj k = (case obj k of None \<Rightarrow> JUndefined | Some v \<Rightarrow> v)"

subsection \<open>\<^verbatim>\<open>Date.now().toString()\<close>\<close>

text \<open>
  \<^verbatim>\<open>Date.now()\<close> is a count of milliseconds, a natural number far below \<open>10\<^sup>2\<^sup>1\<close>, which
  \<^verbatim>\<open>toString()\<close> writes in decimal digits without a leading zero.
\<close>

definition digit_char :: "nat \<Rightarrow> char" where
  "digit_char d = char_of (48 + d)"

function toString :: "nat \<Rightarrow> string" where
  "toString n =
     (if n < 10 then [digit_char n] else toString (n div 10) @ [digit_char (n mod 10)])"
  by pat_completeness auto
termination
  by (relation "measure (\<lambda>n. n)") auto

declare toString.simps [simp del]

text \<open>Reading a decimal numeral back; only used to show that \<open>toString\<close> loses nothing.\<close>

definition digit_val :: "char \<Rightarrow> nat" where
  "digit_val c = of_char c - 48"

definition fromString :: "string \<Rightarrow> nat" where
  "fromString s = foldl (\<lambda>a c. 10 * a + digit_val c) 0 s"

subsection \<open>Replicate\<close>

text \<open>
  The argument of \<^verbatim>\<open>replicate.predictions.create\<close> (lines 83-94): the model version and the
  \<^verbatim>\<open>input\<close> object, its properties in the order of the source.
\<close>

record submission =
  version :: string
  input :: "(string \<times> jsval) list"

text \<open>
  A prediction as Replicate returns it.  The handlers read \<^verbatim>\<open>id\<close>, \<^verbatim>\<open>status\<close>, \<^verbatim>\<open>output\<close>
  and \<^verbatim>\<open>error\<close>; the fields carry the prefix \<open>pred_\<close> because \<open>id\<close> and \<open>status\<close> are taken.
\<close>

record prediction =
  pred_id :: string
  pred_status :: string
  pred_output :: jsval
  pred_error :: jsval

text \<open>What a rejected \<^verbatim>\<open>await\<close> throws; the handlers read only \<^verbatim>\<open>error.message\<close>.\<close>

datatype error = Error (message: string)

text \<open>The requests a handler sends to Replicate, recorded so that "no request" can be stated.\<close>

datatype provider_call = Create submission | Get string

subsection \<open>The registry\<close>

text \<open>
  The object stored by \<^verbatim>\<open>jobs.set\<close> at lines 97-104.  \<open>videoUrl\<close> is not a property of the
  new object (it reads \<open>JUndefined\<close>) and is added by the status handler at line 135.
  \<open>createdAt\<close> is the reading of the clock at line 103.
\<close>

record job =
  predictionId :: string
  status :: string
  characterImageUrl :: jsval
  motionVideoUrl :: jsval
  prompt :: jsval
  createdAt :: nat
  videoUrl :: jsval

type_synonym registry = "string \<rightharpoonup> job"

subsection \<open>Responses\<close>

text \<open>\<^verbatim>\<open>res.status(c).json(body)\<close>; \<^verbatim>\<open>res.json(body)\<close> answers with 200.\<close>

record response =
  http_status :: nat
  json :: "(string \<times> jsval) list"

text \<open>What running a handler gives: the response, the registry afterwards, the requests sent.\<close>

record result =
  res :: response
  jobs :: registry
  sent :: "provider_call list"

subsection \<open>\<^verbatim>\<open>POST /api/generate\<close>\<close>

text \<open>The object literal of lines 83-94.\<close>

definition create_args :: "jsval \<Rightarrow> jsval \<Rightarrow> submission" where
  "create_args motionVideoUrl' prompt' =
     \<lparr> version = ''lucataco/animate-diff:1531004ee4c98894ab11f62a7e6b40edd9ccc75c97974f1fd2f3a98ecc8c85f9'',
       input =
         [ (''path'', motionVideoUrl'),
           (''seed'', JNum 255224557),
           (''steps'', JNum 25),
           (''prompt'', js_or prompt' (JStr ''high quality, best quality'')),
           (''n_prompt'', JStr ''badhandv4, easynegative, ng_deepnegative_v1_75t, verybadimagenegative_v1.3, bad-artist, bad_prompt_version2-neg, teeth''),
           (''motion_module'', JStr ''mm_sd_v14''),
           (''guidance_scale'', JNum 7.5) ] \<rparr>"

text \<open>
  What line 73 throws when \<^verbatim>\<open>req.body\<close> is \<^verbatim>\<open>undefined\<close>: a \<^verbatim>\<open>TypeError\<close> whose message, in
  the wording of Node's engine, is the one below.
\<close>

definition destructure_message :: string where
  "destructure_message =
     ''Cannot destructure property 'characterImageUrl' of 'req.body' as it is undefined.''"

text \<open>
  Lines 71-117.  \<open>predictions_create\<close> is \<^verbatim>\<open>replicate.predictions.create\<close>, \<open>now\<close> the value of
  \<^verbatim>\<open>Date.now()\<close> at line 79, \<open>created\<close> the value of \<^verbatim>\<open>new Date()\<close> at line 103.  \<open>body\<close> is
  \<^verbatim>\<open>req.body\<close>: \<open>Some\<close> of the object that \<^verbatim>\<open>express.json()\<close> parsed, or \<open>None\<close> when the
  request carried no JSON body and \<^verbatim>\<open>req.body\<close> was left \<^verbatim>\<open>undefined\<close> (express 5 leaves it so,
  express 4 puts an empty object there; the source pins neither).  Destructuring
  \<^verbatim>\<open>undefined\<close> at line 73 throws inside the \<^verbatim>\<open>try\<close> block, so the \<^verbatim>\<open>catch\<close> of lines 113-116
  answers.
\<close>

definition generate ::
  "(submission \<Rightarrow> error + prediction) \<Rightarrow> nat \<Rightarrow> nat \<Rightarrow> registry \<Rightarrow>
   (string \<rightharpoonup> jsval) option \<Rightarrow> result"
where
  "generate predictions_create now created jobs0 body =
     (case body of
        None \<Rightarrow>
          \<lparr> res = \<lparr> http_status = 500, json = [(''error'', JStr destructure_message)] \<rparr>,
            jobs = jobs0, sent = [] \<rparr>
      | Some obj \<Rightarrow>
     (let characterImageUrl' = get_prop obj ''characterImageUrl'';
          motionVideoUrl' = get_prop obj ''motionVideoUrl'';
          prompt' = get_prop obj ''prompt''
      in
        if \<not> truthy characterImageUrl' \<or> \<not> truthy motionVideoUrl' then
          \<lparr> res = \<lparr> http_status = 400,
                    json = [(''error'', JStr ''Character image and motion video are required'')] \<rparr>,
            jobs = jobs0, sent = [] \<rparr>
        else
          let jobId = toString now;
              args = create_args motionVideoUrl' prompt'
          in
            case predictions_create args of
              Inl e \<Rightarrow>
                \<lparr> res = \<lparr> http_status = 500, json = [(''error'', JStr (message e))] \<rparr>,
                  jobs = jobs0, sent = [Create args] \<rparr>
            | Inr p \<Rightarrow>
                \<lparr> res = \<lparr> http_status = 200,
                          json = [ (''success'', JBool True),
                                   (''message'', JStr ''Video generation started''),
                                   (''jobId'', JStr jobId),
                                   (''predictionId'', JStr (pred_id p)),
                                   (''status'', JStr ''processing'') ] \<rparr>,
                  jobs = jobs0(jobId \<mapsto>
                          \<lparr> predictionId = pred_id p,
                            status = ''processing'',
                            characterImageUrl = characterImageUrl',
                            motionVideoUrl = motionVideoUrl',
                            prompt = prompt',
                            createdAt = created,
                            videoUrl = JUndefined \<rparr>),
                  sent = [Create args] \<rparr>))"

subsection \<open>\<^verbatim>\<open>GET /api/status/:jobId\<close>\<close>

text \<open>
  Lines 120-149.  \<open>predictions_get\<close> is \<^verbatim>\<open>replicate.predictions.get\<close>.  The handler assigns to
  the object it took out of the map and stores it under the same key again.
\<close>

definition pollStatus ::
  "(string \<Rightarrow> error + prediction) \<Rightarrow> registry \<Rightarrow> string \<Rightarrow> result"
where
  "pollStatus predictions_get jobs0 jobId =
     (case jobs0 jobId of
        None \<Rightarrow>
          \<lparr> res = \<lparr> http_status = 404, json = [(''error'', JStr ''Job not found'')] \<rparr>,
            jobs = jobs0, sent = [] \<rparr>
      | Some j \<Rightarrow>
          (case predictions_get (predictionId j) of
             Inl e \<Rightarrow>
               \<lparr> res = \<lparr> http_status = 500, json = [(''error'', JStr (message e))] \<rparr>,
                 jobs = jobs0, sent = [Get (predictionId j)] \<rparr>
           | Inr p \<Rightarrow>
               \<lparr> res = \<lparr> http_status = 200,
                         json = [ (''jobId'', JStr jobId),
                                  (''status'', JStr (pred_status p)),
                                  (''videoUrl'', js_or (pred_output p) JNull),
                                  (''error'', js_or (pred_error p) JNull) ] \<rparr>,
                 jobs = jobs0(jobId \<mapsto>
                         j\<lparr> status := pred_status p,
                            videoUrl := (if truthy (pred_output p) then pred_output p
                                         else videoUrl j) \<rparr>),
                 sent = [Get (predictionId j)] \<rparr>))"

subsection \<open>Concrete requests and provider answers used in the examples\<close>

definition body_full :: "string \<rightharpoonup> jsval" where
  "body_full =
     [ ''characterImageUrl'' \<mapsto> JStr ''http://h/uploads/1.png'',
       ''motionVideoUrl'' \<mapsto> JStr ''http://h/uploads/2.mp4'',
       ''prompt'' \<mapsto> JStr ''dancing'' ]"

definition job_done :: job where
  "job_done =
     \<lparr> predictionId = ''p1'', status = ''succeeded'',
       characterImageUrl = JStr ''http://h/uploads/1.png'',
       motionVideoUrl = JStr ''http://h/uploads/2.mp4'',
       prompt = JStr ''dancing'', createdAt = 1001,
       videoUrl = JStr ''http://r/out.mp4'' \<rparr>"

definition get_unreachable :: "string \<Rightarrow> error + prediction" where
  "get_unreachable i = Inl (Error ''fetch failed'')"


definition body_no_image :: "string \<rightharpoonup> jsval" where
  "body_no_image =
     [ ''motionVideoUrl'' \<mapsto> JStr ''http://h/uploads/2.mp4'',
       ''prompt'' \<mapsto> JStr ''dancing'' ]"

definition body_no_prompt :: "string \<rightharpoonup> jsval" where
  "body_no_prompt =
     [ ''characterImageUrl'' \<mapsto> JStr ''http://h/uploads/1.png'',
       ''motionVideoUrl'' \<mapsto> JStr ''http://h/uploads/2.mp4'' ]"

definition create_ok :: "submission \<Rightarrow> error + prediction" where
  "create_ok args =
     Inr \<lparr> pred_id = ''p1'', pred_status = ''starting'', pred_output = JNull, pred_error = JNull \<rparr>"

definition create_fails :: "submission \<Rightarrow> error + prediction" where
  "create_fails args = Inl (Error ''quota exceeded'')"

definition get_succeeded :: "string \<Rightarrow> error + prediction" where
  "get_succeeded i =
     Inr \<lparr> pred_id = i, pred_status = ''succeeded'',
           pred_output = JStr ''http://r/out.mp4'', pred_error = JNull \<rparr>"

definition create_ok2 :: "submission \<Rightarrow> error + prediction" where
  "create_ok2 args =
     Inr \<lparr> pred_id = ''p2'', pred_status = ''starting'', pred_output = JNull, pred_error = JNull \<rparr>"

definition body_other :: "string \<rightharpoonup> jsval" where
  "body_other =
     [ ''characterImageUrl'' \<mapsto> JStr ''http://h/uploads/3.png'',
       ''motionVideoUrl'' \<mapsto> JStr ''http://h/uploads/4.mp4'' ]"

definition get_processing :: "string \<Rightarrow> error + prediction" where
  "get_processing i =
     Inr \<lparr> pred_id = i, pred_status = ''processing'', pred_output = JNull, pred_error = JNull \<rparr>"

definition get_no_output :: "string \<Rightarrow> error + prediction" where
  "get_no_output i =
     Inr \<lparr> pred_id = i, pred_status = ''succeeded'', pred_output = JNull, pred_error = JNull \<rparr>"

definition get_canceled :: "string \<Rightarrow> error + prediction" where
  "get_canceled i =
     Inr \<lparr> pred_id = i, pred_status = ''canceled'', pred_output = JNull, pred_error = JNull \<rparr>"

text \<open>A run: one job is generated at clock reading 1000 and then polled once, Replicate
  reporting it succeeded with an output.\<close>

definition run_generated :: result where
  "run_generated = generate create_ok 1000 1001 Map.empty (Some body_full)"

definition run_polled :: result where
  "run_polled = pollStatus get_succeeded (jobs run_generated) ''1000''"

subsection \<open>Notions the properties are stated with\<close>

text \<open>The two statuses after which Replicate reports no further progress.\<close>

definition terminal :: "string \<Rightarrow> bool" where
  "terminal s = (s = ''succeeded'' \<or> s = ''failed'')"

text \<open>
  Requests served one after the other: each is a call of one of the two handlers, with the
  clock readings and the answer Replicate gives at that moment.
\<close>

datatype call =
    Generate "submission \<Rightarrow> error + prediction" nat nat "(string \<rightharpoonup> jsval) option"
  | PollStatus "string \<Rightarrow> error + prediction" string

fun run_call :: "registry \<Rightarrow> call \<Rightarrow> registry" where
  "run_call jobs0 (Generate predictions_create now created body) =
     jobs (generate predictions_create now created jobs0 body)"
| "run_call jobs0 (PollStatus predictions_get jobId) =
     jobs (pollStatus predictions_get jobs0 jobId)"

fun run_calls :: "registry \<Rightarrow> call list \<Rightarrow> registry" where
  "run_calls jobs0 [] = jobs0"
| "run_calls jobs0 (c # cs) = run_calls (run_call jobs0 c) cs"

text \<open>A generate call whose reading of \<^verbatim>\<open>Date.now()\<close> gives the job id \<open>k\<close> once more.\<close>

fun reuses_id :: "string \<Rightarrow> call \<Rightarrow> bool" where
  "reuses_id k (Generate predictions_create now created body) = (toString now = k)"
| "reuses_id k (PollStatus predictions_get jobId) = False"

text \<open>
  The registries the process can hold: it starts empty and changes only through the two
  handlers.  \<open>S\<close> is the set of statuses Replicate may report in a fetched prediction.
\<close>

inductive reachable :: "string set \<Rightarrow> registry \<Rightarrow> bool" for S :: "string set" where
  start: "reachable S Map.empty"
| after_generate:
    "reachable S jobs0 \<Longrightarrow>
     reachable S (jobs (generate predictions_create now created jobs0 body))"
| after_poll:
    "reachable S jobs0 \<Longrightarrow>
     (\<And>i p. predictions_get i = Inr p \<Longrightarrow> pred_status p \<in> S) \<Longrightarrow>
     reachable S (jobs (pollStatus predictions_get jobs0 jobId))"

section \<open>Properties\<close>

subsection \<open>Facts about the pieces\<close>

lemma toString_1000: "toString 1000 = ''1000''"
  by code_simp

lemma digit_val_digit_char: "d < 10 \<Longrightarrow> digit_val (digit_char d) = d"
  by (simp add: digit_val_def digit_char_def)

lemma fromString_snoc: "fromString (s @ [c]) = 10 * fromString s + digit_val c"
  by (simp add: fromString_def)

lemma fromString_toString: "fromString (toString n) = n"
proof (induction n rule: toString.induct)
  case (1 n)
  show ?case
  proof (cases "n < 10")
    case True
    then show ?thesis
      by (simp add: toString.simps [of n] fromString_def digit_val_digit_char)
  next
    case False
    with 1 show ?thesis
      by (simp add: toString.simps [of n] fromString_snoc digit_val_digit_char)
  qed
qed

lemma toString_inj: "toString a = toString b \<Longrightarrow> a = b"
  by (metis fromString_toString)

lemma toString_2000: "toString 2000 = ''2000''"
  by code_simp

lemma run_generated_eval:
  "run_generated =
     \<lparr> res = \<lparr> http_status = 200,
               json = [ (''success'', JBool True),
                        (''message'', JStr ''Video generation started''),
                        (''jobId'', JStr ''1000''),
                        (''predictionId'', JStr ''p1''),
                        (''status'', JStr ''processing'') ] \<rparr>,
       jobs = [''1000'' \<mapsto>
                \<lparr> predictionId = ''p1'', status = ''processing'',
                  characterImageUrl = JStr ''http://h/uploads/1.png'',
                  motionVideoUrl = JStr ''http://h/uploads/2.mp4'',
                  prompt = JStr ''dancing'', createdAt = 1001, videoUrl = JUndefined \<rparr>],
       sent = [Create (create_args (JStr ''http://h/uploads/2.mp4'') (JStr ''dancing''))] \<rparr>"
  by (simp add: run_generated_def generate_def Let_def body_full_def get_prop_def create_ok_def
        toString_1000)

lemma run_polled_eval:
  "run_polled =
     \<lparr> res = \<lparr> http_status = 200,
               json = [ (''jobId'', JStr ''1000''), (''status'', JStr ''succeeded''),
                        (''videoUrl'', JStr ''http://r/out.mp4''), (''error'', JNull) ] \<rparr>,
       jobs = [''1000'' \<mapsto> job_done],
       sent = [Get ''p1''] \<rparr>"
  by (simp add: run_polled_def run_generated_eval pollStatus_def get_succeeded_def js_or_def
        job_done_def)

lemma generate_ok_jobId:
  assumes "http_status (res (generate predictions_create now created jobs0 body)) = 200"
  shows "map_of (json (res (generate predictions_create now created jobs0 body))) ''jobId''
           = Some (JStr (toString now))"
  using assms by (auto simp: generate_def Let_def split: option.splits if_splits sum.splits)

lemma generate_other_keys:
  "k \<noteq> toString now \<Longrightarrow> jobs (generate predictions_create now created jobs0 body) k = jobs0 k"
  by (auto simp: generate_def Let_def split: option.splits if_splits sum.splits)

lemma poll_keeps_videoUrl:
  assumes "jobs0 k = Some j" and "truthy (videoUrl j)"
  shows "\<exists>j'. jobs (pollStatus predictions_get jobs0 jobId) k = Some j'
              \<and> truthy (videoUrl j')"
  using assms by (auto simp: pollStatus_def split: option.splits sum.splits)

lemma run_call_keeps_videoUrl:
  assumes "jobs0 k = Some j" and "truthy (videoUrl j)" and "\<not> reuses_id k c"
  shows "\<exists>j'. run_call jobs0 c k = Some j' \<and> truthy (videoUrl j')"
proof (cases c)
  case (Generate predictions_create now created body)
  with assms(3) have "k \<noteq> toString now" by auto
  then have "run_call jobs0 c k = jobs0 k"
    by (simp add: Generate generate_other_keys)
  with assms(1,2) show ?thesis by simp
next
  case (PollStatus predictions_get jobId)
  with assms(1,2) poll_keeps_videoUrl [of jobs0 k j predictions_get jobId]
  show ?thesis by simp
qed

lemma run_calls_keeps_videoUrl:
  "jobs0 k = Some j \<Longrightarrow> truthy (videoUrl j) \<Longrightarrow> \<forall>c \<in> set cs. \<not> reuses_id k c \<Longrightarrow>
   \<exists>j'. run_calls jobs0 cs k = Some j' \<and> truthy (videoUrl j')"
proof (induction cs arbitrary: jobs0 j)
  case Nil
  then show ?case by simp
next
  case (Cons c cs)
  from Cons.prems have "\<not> reuses_id k c" by simp
  with Cons.prems(1,2) run_call_keeps_videoUrl [of jobs0 k j c]
  obtain j1 where "run_call jobs0 c k = Some j1" and "truthy (videoUrl j1)"
    by blast
  with Cons.IH [of "run_call jobs0 c" j1] Cons.prems(3) show ?case by simp
qed

lemma poll_answer_videoUrl:
  assumes "jobs0 jobId = Some j" and "predictions_get (predictionId j) = Inr p"
  shows "map_of (json (res (pollStatus predictions_get jobs0 jobId))) ''videoUrl''
           = Some (js_or (pred_output p) JNull)"
  using assms by (simp add: pollStatus_def)

lemma poll_answered_videoUrl_stored:
  assumes "map_of (json (res (pollStatus predictions_get jobs0 jobId))) ''videoUrl'' = Some v"
    and "v \<noteq> JNull"
  shows "\<exists>j. jobs (pollStatus predictions_get jobs0 jobId) jobId = Some j \<and> truthy (videoUrl j)"
  using assms
  by (auto simp: pollStatus_def js_or_def split: option.splits sum.splits if_splits)

subsection \<open>The claims\<close>


text \<open>
  C3.  When the job exists and the fetch from Replicate throws, the status handler leaves
  the registry as it was, every record included, and answers with status 500 and a body that
  carries the message of the thrown error.
\<close>

theorem poll_fetch_error_keeps_registry:
  assumes "jobs0 jobId = Some j"
    and "predictions_get (predictionId j) = Inl e"
  shows "jobs (pollStatus predictions_get jobs0 jobId) = jobs0
       \<and> res (pollStatus predictions_get jobs0 jobId)
           = \<lparr> http_status = 500, json = [(''error'', JStr (message e))] \<rparr>"
  using assms by (simp add: pollStatus_def)

theorem poll_fetch_error_keeps_registry_witness:
  "jobs (pollStatus get_unreachable [''1000'' \<mapsto> job_done] ''1000'') = [''1000'' \<mapsto> job_done]
   \<and> res (pollStatus get_unreachable [''1000'' \<mapsto> job_done] ''1000'')
       = \<lparr> http_status = 500, json = [(''error'', JStr ''fetch failed'')] \<rparr>"
  using poll_fetch_error_keeps_registry
          [of "[''1000'' \<mapsto> job_done]" "''1000''" job_done get_unreachable "Error ''fetch failed''"]
  by (simp add: get_unreachable_def)

text \<open>
  C4.  When the generate handler has sent its request to Replicate and that request throws,
  the registry after the call is the registry before it (no record is inserted) and the
  answer has status 500 and carries the message of the thrown error.
\<close>

theorem generate_submit_error_inserts_nothing:
  assumes "Create args \<in> set (sent (generate predictions_create now created jobs0 body))"
    and "predictions_create args = Inl e"
  shows "jobs (generate predictions_create now created jobs0 body) = jobs0
       \<and> res (generate predictions_create now created jobs0 body)
           = \<lparr> http_status = 500, json = [(''error'', JStr (message e))] \<rparr>"
  using assms by (auto simp: generate_def Let_def split: option.splits if_splits sum.splits)

theorem generate_submit_error_inserts_nothing_witness:
  "sent (generate create_fails 1000 1001 Map.empty (Some body_full))
     = [Create (create_args (JStr ''http://h/uploads/2.mp4'') (JStr ''dancing''))]
   \<and> jobs (generate create_fails 1000 1001 Map.empty (Some body_full)) = Map.empty
   \<and> res (generate create_fails 1000 1001 Map.empty (Some body_full))
       = \<lparr> http_status = 500, json = [(''error'', JStr ''quota exceeded'')] \<rparr>"
proof -
  have s: "sent (generate create_fails 1000 1001 Map.empty (Some body_full))
     = [Create (create_args (JStr ''http://h/uploads/2.mp4'') (JStr ''dancing''))]"
    by (simp add: generate_def Let_def body_full_def get_prop_def create_fails_def)
  show ?thesis
    using s generate_submit_error_inserts_nothing
            [of "create_args (JStr ''http://h/uploads/2.mp4'') (JStr ''dancing'')"
                create_fails 1000 1001 Map.empty "Some body_full" "Error ''quota exceeded''"]
    by (simp add: create_fails_def)
qed

text \<open>
  C5 does not hold of the code for every call.  A call with no URL sends nothing to
  Replicate and leaves the registry as it was, whatever the body is.  Its answer has status
  400 when \<^verbatim>\<open>req.body\<close> is an object in which \<open>characterImageUrl\<close> or \<open>motionVideoUrl\<close> is
  absent, \<^verbatim>\<open>null\<close> or the empty string, and status 500 when \<^verbatim>\<open>req.body\<close> itself is
  \<^verbatim>\<open>undefined\<close>: line 73 throws before the check of line 75 is reached.
\<close>

theorem generate_missing_input_answer:
  assumes "case body of
             None \<Rightarrow> True
           | Some obj \<Rightarrow> get_prop obj ''characterImageUrl'' \<in> {JUndefined, JNull, JStr ''''}
                        \<or> get_prop obj ''motionVideoUrl'' \<in> {JUndefined, JNull, JStr ''''}"
  shows "sent (generate predictions_create now created jobs0 body) = []
       \<and> jobs (generate predictions_create now created jobs0 body) = jobs0
       \<and> http_status (res (generate predictions_create now created jobs0 body))
           = (case body of None \<Rightarrow> 500 | Some obj \<Rightarrow> 400)"
  using assms by (auto simp: generate_def Let_def split: option.splits)

theorem generate_missing_input_answer_witness:
  "http_status (res (generate create_ok 1000 1001 [''999'' \<mapsto> job_done] None)) = 500
   \<and> sent (generate create_ok 1000 1001 [''999'' \<mapsto> job_done] None) = []
   \<and> jobs (generate create_ok 1000 1001 [''999'' \<mapsto> job_done] None) = [''999'' \<mapsto> job_done]
   \<and> get_prop body_no_image ''characterImageUrl'' = JUndefined
   \<and> http_status (res (generate create_ok 1000 1001 [''999'' \<mapsto> job_done] (Some body_no_image)))
       = 400
   \<and> sent (generate create_ok 1000 1001 [''999'' \<mapsto> job_done] (Some body_no_image)) = []
   \<and> jobs (generate create_ok 1000 1001 [''999'' \<mapsto> job_done] (Some body_no_image))
       = [''999'' \<mapsto> job_done]"
proof -
  have h: "get_prop body_no_image ''characterImageUrl'' = JUndefined"
    by (simp add: body_no_image_def get_prop_def)
  from generate_missing_input_answer [of None create_ok 1000 1001 "[''999'' \<mapsto> job_done]"]
  have a: "http_status (res (generate create_ok 1000 1001 [''999'' \<mapsto> job_done] None)) = 500
   \<and> sent (generate create_ok 1000 1001 [''999'' \<mapsto> job_done] None) = []
   \<and> jobs (generate create_ok 1000 1001 [''999'' \<mapsto> job_done] None) = [''999'' \<mapsto> job_done]"
    by simp
  from h generate_missing_input_answer
           [of "Some body_no_image" create_ok 1000 1001 "[''999'' \<mapsto> job_done]"]
  have b: "http_status (res (generate create_ok 1000 1001 [''999'' \<mapsto> job_done] (Some body_no_image)))
       = 400
   \<and> sent (generate create_ok 1000 1001 [''999'' \<mapsto> job_done] (Some body_no_image)) = []
   \<and> jobs (generate create_ok 1000 1001 [''999'' \<mapsto> job_done] (Some body_no_image))
       = [''999'' \<mapsto> job_done]"
    by simp
  from a b h show ?thesis by simp
qed

text \<open>
  C8.  For an existing job, two polls one right after the other, with Replicate answering
  the same both times, give the same response, in particular the same \<open>status\<close> and the
  same \<open>videoUrl\<close>.
\<close>

theorem poll_twice_same_answer:
  assumes "jobs0 jobId = Some j"
  shows "res (pollStatus predictions_get (jobs (pollStatus predictions_get jobs0 jobId)) jobId)
           = res (pollStatus predictions_get jobs0 jobId)
       \<and> map_of (json (res (pollStatus predictions_get
                                (jobs (pollStatus predictions_get jobs0 jobId)) jobId))) ''status''
           = map_of (json (res (pollStatus predictions_get jobs0 jobId))) ''status''
       \<and> map_of (json (res (pollStatus predictions_get
                                (jobs (pollStatus predictions_get jobs0 jobId)) jobId))) ''videoUrl''
           = map_of (json (res (pollStatus predictions_get jobs0 jobId))) ''videoUrl''"
proof -
  have "res (pollStatus predictions_get (jobs (pollStatus predictions_get jobs0 jobId)) jobId)
           = res (pollStatus predictions_get jobs0 jobId)"
    using assms by (cases "predictions_get (predictionId j)") (simp_all add: pollStatus_def)
  then show ?thesis by simp
qed

theorem poll_twice_same_answer_witness:
  "map_of (json (res (pollStatus get_succeeded [''1000'' \<mapsto> job_done] ''1000''))) ''status''
     = Some (JStr ''succeeded'')
   \<and> map_of (json (res (pollStatus get_succeeded
                  (jobs (pollStatus get_succeeded [''1000'' \<mapsto> job_done] ''1000'')) ''1000''))) ''status''
     = Some (JStr ''succeeded'')
   \<and> map_of (json (res (pollStatus get_succeeded
                  (jobs (pollStatus get_succeeded [''1000'' \<mapsto> job_done] ''1000'')) ''1000''))) ''videoUrl''
     = Some (JStr ''http://r/out.mp4'')"
proof -
  have first: "res (pollStatus get_succeeded [''1000'' \<mapsto> job_done] ''1000'')
      = \<lparr> http_status = 200,
           json = [ (''jobId'', JStr ''1000''), (''status'', JStr ''succeeded''),
                    (''videoUrl'', JStr ''http://r/out.mp4''), (''error'', JNull) ] \<rparr>"
    by (simp add: pollStatus_def get_succeeded_def js_or_def)
  show ?thesis
    using poll_twice_same_answer [of "[''1000'' \<mapsto> job_done]" "''1000''" job_done get_succeeded]
    by (simp add: first)
qed

text \<open>
  C1, as the claim states it, fails.  A job is generated and a poll stores the terminal
  status \<open>succeeded\<close>; on the next poll Replicate reports \<open>processing\<close>, the poll succeeds
  and the record's status is \<open>processing\<close> again: line 133 assigns whatever was fetched.
\<close>

theorem terminal_status_overwritten_counterexample:
  "map_option status (jobs run_polled ''1000'') = Some ''succeeded''
   \<and> terminal ''succeeded''
   \<and> http_status (res (pollStatus get_processing (jobs run_polled) ''1000'')) = 200
   \<and> map_option status (jobs (pollStatus get_processing (jobs run_polled) ''1000'') ''1000'')
       = Some ''processing''
   \<and> \<not> terminal ''processing''"
  by (simp add: run_polled_eval pollStatus_def get_processing_def job_done_def terminal_def)

text \<open>
  C1, amended.  For a job whose record holds a terminal status, a later poll of that job
  that reaches Replicate sets the record's status to the status Replicate reports on that
  poll, so the status is terminal afterwards exactly when the reported one is; a later poll
  whose fetch throws leaves the record as it was, hence terminal; a poll of another job id
  leaves the record as it was.
\<close>

theorem poll_status_follows_provider:
  assumes "jobs0 jobId = Some j" and "terminal (status j)"
  shows "(\<exists>j'. jobs (pollStatus predictions_get jobs0 jobId) jobId = Some j'
            \<and> (case predictions_get (predictionId j) of
                   Inr p \<Rightarrow> status j' = pred_status p
                            \<and> terminal (status j') = terminal (pred_status p)
                 | Inl e \<Rightarrow> j' = j \<and> terminal (status j')))
       \<and> (\<forall>other. other \<noteq> jobId \<longrightarrow>
             jobs (pollStatus predictions_get jobs0 other) jobId = Some j)"
  using assms by (auto simp: pollStatus_def split: sum.splits option.splits)

theorem poll_status_follows_provider_witness:
  "terminal (status job_done)
   \<and> map_option status (jobs (pollStatus get_succeeded [''1000'' \<mapsto> job_done] ''1000'') ''1000'')
       = Some ''succeeded''
   \<and> jobs (pollStatus get_unreachable [''1000'' \<mapsto> job_done] ''1000'') ''1000'' = Some job_done"
proof -
  have t: "terminal (status job_done)"
    by (simp add: job_done_def terminal_def)
  have g: "get_succeeded (predictionId job_done)
             = Inr \<lparr> pred_id = ''p1'', pred_status = ''succeeded'',
                     pred_output = JStr ''http://r/out.mp4'', pred_error = JNull \<rparr>"
    by (simp add: get_succeeded_def job_done_def)
  have u: "get_unreachable (predictionId job_done) = Inl (Error ''fetch failed'')"
    by (simp add: get_unreachable_def)
  from poll_status_follows_provider
         [of "[''1000'' \<mapsto> job_done]" "''1000''" job_done get_succeeded] t g
  have a: "map_option status
             (jobs (pollStatus get_succeeded [''1000'' \<mapsto> job_done] ''1000'') ''1000'')
           = Some ''succeeded''"
    by auto
  from poll_status_follows_provider
         [of "[''1000'' \<mapsto> job_done]" "''1000''" job_done get_unreachable] t u
  have b: "jobs (pollStatus get_unreachable [''1000'' \<mapsto> job_done] ''1000'') ''1000''
             = Some job_done"
    by auto
  from t a b show ?thesis by simp
qed

text \<open>
  C2, as the claim states it, fails.  A poll answers \<open>succeeded\<close> with a \<open>videoUrl\<close>; on the
  next poll Replicate reports no output and the answer's \<open>videoUrl\<close> is \<^verbatim>\<open>null\<close>: line 142
  answers with the fetched output, not with the stored one.
\<close>

theorem later_poll_null_videoUrl_counterexample:
  "map_of (json (res run_polled)) ''status'' = Some (JStr ''succeeded'')
   \<and> map_of (json (res run_polled)) ''videoUrl'' = Some (JStr ''http://r/out.mp4'')
   \<and> http_status (res (pollStatus get_no_output (jobs run_polled) ''1000'')) = 200
   \<and> map_of (json (res (pollStatus get_no_output (jobs run_polled) ''1000''))) ''videoUrl''
       = Some JNull"
  by (simp add: run_polled_eval pollStatus_def get_no_output_def js_or_def)

text \<open>
  C2, amended.  Once a poll has answered with a non-null \<open>videoUrl\<close>, the record of that job
  holds a truthy \<open>videoUrl\<close> after every sequence of later calls of the two handlers in which
  no generate call reads a clock value that gives this job's id once more (such a call
  replaces the record), whatever Replicate reports on the later polls; the \<open>videoUrl\<close> of a
  later answer is the output fetched on that poll, or \<^verbatim>\<open>null\<close> when that output is falsy.
\<close>

theorem stored_videoUrl_survives_calls:
  assumes "map_of (json (res (pollStatus predictions_get jobs0 jobId))) ''videoUrl'' = Some v"
    and "v \<noteq> JNull"
    and "\<forall>c \<in> set cs. \<not> reuses_id jobId c"
  shows "\<exists>j. run_calls (jobs (pollStatus predictions_get jobs0 jobId)) cs jobId = Some j
            \<and> truthy (videoUrl j)
            \<and> (\<forall>g p. g (predictionId j) = Inr p \<longrightarrow>
                  map_of (json (res (pollStatus g
                      (run_calls (jobs (pollStatus predictions_get jobs0 jobId)) cs) jobId)))
                    ''videoUrl'' = Some (js_or (pred_output p) JNull))"
proof -
  from poll_answered_videoUrl_stored [OF assms(1,2)]
  obtain j1 where "jobs (pollStatus predictions_get jobs0 jobId) jobId = Some j1"
    and "truthy (videoUrl j1)" by blast
  with assms(3)
    run_calls_keeps_videoUrl [of "jobs (pollStatus predictions_get jobs0 jobId)" jobId j1 cs]
  obtain j where j: "run_calls (jobs (pollStatus predictions_get jobs0 jobId)) cs jobId = Some j"
    and t: "truthy (videoUrl j)" by blast
  from j t show ?thesis by (simp add: poll_answer_videoUrl)
qed

theorem stored_videoUrl_survives_calls_witness:
  "map_of (json (res (pollStatus get_succeeded (jobs run_generated) ''1000''))) ''videoUrl''
     = Some (JStr ''http://r/out.mp4'')
   \<and> (\<exists>j. run_calls (jobs (pollStatus get_succeeded (jobs run_generated) ''1000''))
              [ PollStatus get_no_output ''1000'',
                Generate create_ok2 2000 2001 (Some body_other),
                PollStatus get_unreachable ''1000'' ] ''1000'' = Some j
          \<and> truthy (videoUrl j))"
proof -
  have h: "map_of (json (res (pollStatus get_succeeded (jobs run_generated) ''1000''))) ''videoUrl''
     = Some (JStr ''http://r/out.mp4'')"
    using run_polled_eval by (simp add: run_polled_def)
  have n: "\<forall>c \<in> set [ PollStatus get_no_output ''1000'',
                        Generate create_ok2 2000 2001 (Some body_other),
                        PollStatus get_unreachable ''1000'' ]. \<not> reuses_id ''1000'' c"
    by (simp add: toString_2000)
  from stored_videoUrl_survives_calls [OF h _ n]
  have "\<exists>j. run_calls (jobs (pollStatus get_succeeded (jobs run_generated) ''1000''))
              [ PollStatus get_no_output ''1000'',
                Generate create_ok2 2000 2001 (Some body_other),
                PollStatus get_unreachable ''1000'' ] ''1000'' = Some j
          \<and> truthy (videoUrl j)"
    by blast
  with h show ?thesis by simp
qed

text \<open>
  C6, as the claim states it, fails.  Two generate calls that read the same value of
  \<^verbatim>\<open>Date.now()\<close> both succeed and return the same \<open>jobId\<close>, and the second call replaces the
  record of the first (the prediction id under the key changes from \<open>p1\<close> to \<open>p2\<close>).
\<close>

theorem same_millisecond_same_jobId_counterexample:
  "http_status (res run_generated) = 200
   \<and> map_of (json (res run_generated)) ''jobId'' = Some (JStr ''1000'')
   \<and> map_option predictionId (jobs run_generated ''1000'') = Some ''p1''
   \<and> http_status (res (generate create_ok2 1000 1002 (jobs run_generated) (Some body_other))) = 200
   \<and> map_of (json (res (generate create_ok2 1000 1002 (jobs run_generated) (Some body_other)))) ''jobId''
       = Some (JStr ''1000'')
   \<and> map_option predictionId
         (jobs (generate create_ok2 1000 1002 (jobs run_generated) (Some body_other)) ''1000'')
       = Some ''p2''"
  by (simp add: run_generated_eval generate_def Let_def body_other_def get_prop_def create_ok2_def
        toString_1000)

text \<open>
  C6, amended.  Two successful generate calls whose readings of \<^verbatim>\<open>Date.now()\<close> differ return
  different job ids, each the decimal numeral of its reading, and the later call leaves
  whatever the registry holds under the earlier id untouched.
\<close>

theorem distinct_clock_readings_distinct_jobIds:
  assumes "http_status (res (generate create1 now1 created1 jobs0 body1)) = 200"
    and "http_status (res (generate create2 now2 created2 jobs1 body2)) = 200"
    and "now1 \<noteq> now2"
  shows "map_of (json (res (generate create1 now1 created1 jobs0 body1))) ''jobId''
           = Some (JStr (toString now1))
       \<and> map_of (json (res (generate create2 now2 created2 jobs1 body2))) ''jobId''
           = Some (JStr (toString now2))
       \<and> toString now1 \<noteq> toString now2
       \<and> jobs (generate create2 now2 created2 jobs1 body2) (toString now1)
           = jobs1 (toString now1)"
proof -
  from assms(3) have d: "toString now1 \<noteq> toString now2"
    using toString_inj by blast
  from d have "jobs (generate create2 now2 created2 jobs1 body2) (toString now1)
                 = jobs1 (toString now1)"
    by (rule generate_other_keys)
  with d assms(1,2) show ?thesis
    by (simp add: generate_ok_jobId)
qed

theorem distinct_clock_readings_distinct_jobIds_witness:
  "http_status (res run_generated) = 200
   \<and> http_status (res (generate create_ok2 2000 2001 (jobs run_generated) (Some body_other))) = 200
   \<and> map_of (json (res (generate create_ok2 2000 2001 (jobs run_generated) (Some body_other)))) ''jobId''
       = Some (JStr ''2000'')
   \<and> map_option predictionId
         (jobs (generate create_ok2 2000 2001 (jobs run_generated) (Some body_other)) ''1000'')
       = Some ''p1''"
proof -
  have a: "http_status (res (generate create_ok 1000 1001 Map.empty (Some body_full))) = 200"
    using run_generated_eval by (simp add: run_generated_def)
  have b: "http_status (res (generate create_ok2 2000 2001 (jobs run_generated) (Some body_other))) = 200"
    by (simp add: generate_def Let_def body_other_def get_prop_def create_ok2_def)
  have c: "(1000::nat) \<noteq> 2000" by simp
  from distinct_clock_readings_distinct_jobIds [OF a b c]
  show ?thesis
    using a b by (simp add: toString_1000 toString_2000 run_generated_eval run_generated_def [symmetric])
qed

text \<open>
  C7, as the claim states it, fails.  Replicate reports \<open>canceled\<close> for a generated job, the
  poll succeeds and the record's status is \<open>canceled\<close>, which is none of the four values.
\<close>

theorem provider_status_stored_counterexample:
  "http_status (res (pollStatus get_canceled (jobs run_generated) ''1000'')) = 200
   \<and> map_option status (jobs (pollStatus get_canceled (jobs run_generated) ''1000'') ''1000'')
       = Some ''canceled''
   \<and> ''canceled'' \<notin> {''pending'', ''processing'', ''succeeded'', ''failed''}"
  by (simp add: run_generated_eval pollStatus_def get_canceled_def)

text \<open>
  C7, amended.  In every reachable registry the status of every record is \<open>processing\<close>, as
  the generate handler initialises it, or a status that Replicate reported; so it is one of
  pending, processing, succeeded and failed as long as Replicate reports only these.
\<close>

theorem status_processing_or_reported:
  assumes "reachable S jobs0" and "jobs0 jobId = Some j"
  shows "status j \<in> insert ''processing'' S"
  using assms
proof (induction arbitrary: jobId j rule: reachable.induct)
  case start
  then show ?case by simp
next
  case (after_generate jobs0 predictions_create now created body)
  then show ?case
    by (auto simp: generate_def Let_def split: option.splits if_splits sum.splits)
next
  case (after_poll jobs0 predictions_get jobId')
  then show ?case
    by (auto simp: pollStatus_def split: option.splits sum.splits if_splits)
qed

theorem status_processing_or_reported_witness:
  "reachable {''pending'', ''processing'', ''succeeded'', ''failed''} (jobs run_polled)
   \<and> jobs run_polled ''1000'' = Some job_done
   \<and> status job_done \<in> {''pending'', ''processing'', ''succeeded'', ''failed''}"
proof -
  have r1: "reachable {''pending'', ''processing'', ''succeeded'', ''failed''} (jobs run_generated)"
    unfolding run_generated_def by (rule reachable.after_generate) (rule reachable.start)
  have r2: "reachable {''pending'', ''processing'', ''succeeded'', ''failed''} (jobs run_polled)"
    unfolding run_polled_def
    by (rule reachable.after_poll [OF r1]) (auto simp: get_succeeded_def)
  have l: "jobs run_polled ''1000'' = Some job_done"
    by (simp add: run_polled_eval)
  from status_processing_or_reported [OF r2 l] r2 l show ?thesis by auto
qed

text \<open>
  C9 does not hold of the code.  The request sent to Replicate is built from
  \<open>motionVideoUrl\<close> and \<open>prompt\<close> only: replacing the character image by any other truthy
  value leaves the request exactly the same.  The theorem after this one evaluates a call
  with both URLs given: the motion video is the \<open>path\<close> parameter and the character image
  is the value of no parameter.
\<close>

theorem generate_request_ignores_character_image:
  assumes "truthy (get_prop body ''characterImageUrl'')" and "truthy v"
  shows "sent (generate predictions_create now created jobs0
                 (Some (body(''characterImageUrl'' \<mapsto> v))))
           = sent (generate predictions_create now created jobs0 (Some body))"
  using assms by (simp add: generate_def Let_def get_prop_def split: sum.splits)

theorem generate_request_ignores_character_image_witness:
  "sent run_generated = [Create (create_args (JStr ''http://h/uploads/2.mp4'') (JStr ''dancing''))]
   \<and> map_of (input (create_args (JStr ''http://h/uploads/2.mp4'') (JStr ''dancing''))) ''path''
       = Some (JStr ''http://h/uploads/2.mp4'')
   \<and> JStr ''http://h/uploads/1.png''
       \<notin> snd ` set (input (create_args (JStr ''http://h/uploads/2.mp4'') (JStr ''dancing'')))
   \<and> sent (generate create_ok 1000 1001 Map.empty
              (Some (body_full(''characterImageUrl'' \<mapsto> JStr ''http://h/uploads/3.png''))))
       = sent run_generated"
proof -
  have t: "truthy (get_prop body_full ''characterImageUrl'')"
    by (simp add: body_full_def get_prop_def)
  have i: "JStr ''http://h/uploads/1.png''
       \<notin> snd ` set (input (create_args (JStr ''http://h/uploads/2.mp4'') (JStr ''dancing'')))"
    by (simp add: create_args_def js_or_def)
  have p: "map_of (input (create_args (JStr ''http://h/uploads/2.mp4'') (JStr ''dancing''))) ''path''
       = Some (JStr ''http://h/uploads/2.mp4'')"
    by (simp add: create_args_def)
  from generate_request_ignores_character_image
         [OF t, of "JStr ''http://h/uploads/3.png''" create_ok 1000 1001 Map.empty]
  have "sent (generate create_ok 1000 1001 Map.empty
              (Some (body_full(''characterImageUrl'' \<mapsto> JStr ''http://h/uploads/3.png''))))
       = sent run_generated"
    by (simp add: run_generated_def)
  with i p show ?thesis by (simp add: run_generated_eval)
qed

text \<open>
  C10.  When both URLs are given and \<open>prompt\<close> is absent, \<^verbatim>\<open>null\<close> or the empty string, the
  one request sent to Replicate has the prompt parameter \<open>high quality, best quality\<close>, and
  when Replicate accepts the request the stored record keeps the prompt as it came.
\<close>

theorem generate_default_prompt:
  assumes "truthy (get_prop body ''characterImageUrl'')"
    and "truthy (get_prop body ''motionVideoUrl'')"
    and "get_prop body ''prompt'' \<in> {JUndefined, JNull, JStr ''''}"
  shows "sent (generate predictions_create now created jobs0 (Some body))
           = [Create (create_args (get_prop body ''motionVideoUrl'') (get_prop body ''prompt''))]
       \<and> map_of (input (create_args (get_prop body ''motionVideoUrl'') (get_prop body ''prompt'')))
            ''prompt'' = Some (JStr ''high quality, best quality'')
       \<and> (\<forall>p. predictions_create
                 (create_args (get_prop body ''motionVideoUrl'') (get_prop body ''prompt'')) = Inr p
              \<longrightarrow> map_option prompt
                    (jobs (generate predictions_create now created jobs0 (Some body)) (toString now))
                  = Some (get_prop body ''prompt''))"
  using assms
  by (auto simp: generate_def Let_def create_args_def js_or_def split: sum.splits)

theorem generate_default_prompt_witness:
  "get_prop body_no_prompt ''prompt'' = JUndefined
   \<and> sent (generate create_ok 1000 1001 Map.empty (Some body_no_prompt))
       = [Create (create_args (JStr ''http://h/uploads/2.mp4'') JUndefined)]
   \<and> map_of (input (create_args (JStr ''http://h/uploads/2.mp4'') JUndefined)) ''prompt''
       = Some (JStr ''high quality, best quality'')
   \<and> map_option prompt (jobs (generate create_ok 1000 1001 Map.empty (Some body_no_prompt)) ''1000'')
       = Some JUndefined"
proof -
  have c: "truthy (get_prop body_no_prompt ''characterImageUrl'')"
    by (simp add: body_no_prompt_def get_prop_def)
  have m: "get_prop body_no_prompt ''motionVideoUrl'' = JStr ''http://h/uploads/2.mp4''"
    by (simp add: body_no_prompt_def get_prop_def)
  have p: "get_prop body_no_prompt ''prompt'' = JUndefined"
    by (simp add: body_no_prompt_def get_prop_def)
  from generate_default_prompt [of body_no_prompt create_ok 1000 1001 Map.empty] c m p
  show ?thesis
    by (simp add: create_ok_def toString_1000)
qed

end
